theory Spec2Isabelle
  imports Main
begin

section \<open>Python values and strings\<close>

text \<open>
  The tool reads optional attributes of a machine with \<open>getattr(m, name, default)\<close>
  and tests them with \<open>not val\<close>, \<open>a or b\<close> and \<open>isinstance\<close>. The values an
  attribute can hold are modelled by \<open>pyval\<close>: \<open>None\<close>, a string, a \<open>datetime\<close>
  (a \<open>stamp\<close>: a point in time without or with a UTC offset), a number (an integer
  here), or any other object, of which only the truth value matters: \<open>float()\<close> of
  it raises. \<open>lower\<close> is \<open>str.lower()\<close> on ASCII, which is what the status labels of
  the service are written in.
\<close>

datatype stamp = Naive int | Aware int

datatype pyval = PyNone | PyStr string | PyDatetime stamp | PyNum int | PyOther bool

fun truthy :: "pyval \<Rightarrow> bool" where
  "truthy PyNone = False"
| "truthy (PyStr s) = (s \<noteq> [])"
| "truthy (PyDatetime t) = True"
| "truthy (PyNum n) = (n \<noteq> 0)"
| "truthy (PyOther b) = b"

definition py_or :: "pyval \<Rightarrow> pyval \<Rightarrow> pyval" where
  "py_or a b = (if truthy a then a else b)"

definition lower_char :: "char \<Rightarrow> char" where
  "lower_char c =
     (case map_of (zip ''ABCDEFGHIJKLMNOPQRSTUVWXYZ'' ''abcdefghijklmnopqrstuvwxyz'') c of
        Some d \<Rightarrow> d
      | None \<Rightarrow> c)"

definition lower :: "string \<Rightarrow> string" where
  "lower s = map lower_char s"

section \<open>Machines, the session and the outside world\<close>

text \<open>
  A machine as the client library hands it over: the three attributes every machine
  has (so the default of \<open>getattr(m, "status_name", "")\<close> is never used), and an
  association list for the optional ones that the tool probes with \<open>getattr\<close> (the
  OS label \<open>distro_series\<close> and the timestamp attributes).
\<close>

record machine =
  hostname :: string
  system_id :: string
  status_name :: string
  attrs :: "(string \<times> pyval) list"

definition getattr :: "machine \<Rightarrow> string \<Rightarrow> pyval \<Rightarrow> pyval" where
  "getattr m name dflt = (case map_of (attrs m) name of Some v \<Rightarrow> v | None \<Rightarrow> dflt)"

text \<open>
  Exceptions. The first five are the ones \<open>connect_maas\<close> catches; \<open>TypeError\<close>
  is what comparing an offset-naive with an offset-aware \<open>datetime\<close> raises, and
  what a call with a keyword that the callee does not have raises; \<open>Exception\<close>
  stands for any other exception of the client library.
\<close>

datatype exn =
    ClientConnectorError | ClientOSError | ClientResponseError
  | TimeoutError | ServerDisconnectedError
  | TypeError | Exception

text \<open>
  The remote service is not part of the program. A session (\<open>client\<close>) is modelled
  by what the service answers: \<open>listing n\<close> is the machine list the service holds when
  the \<open>n\<close>-th remote call of the run arrives, \<open>fault n\<close> the exception that call
  raises, if any, and \<open>delay n\<close> the wall-clock seconds the call takes. Every
  behaviour of the service is one such \<open>client\<close>, so a statement for all clients
  covers all behaviours.
\<close>

record client =
  listing :: "nat \<Rightarrow> machine list"
  fault :: "nat \<Rightarrow> exn option"
  delay :: "nat \<Rightarrow> nat"

text \<open>
  \<open>deploy_machine\<close> compares \<open>m.hostname\<close> with its parameter \<open>machine_name\<close>. The
  \<open>deploy\<close> action of \<open>main\<close> passes the host name; \<open>redeploy_machine\<close> passes the
  machine object it fetched. A Python string equals no machine object: \<open>str\<close> does
  not know the other type, and an object of the client library is equal to objects
  of its own type only.
\<close>

datatype name_arg = Hostname string | MachineObj machine

fun name_eq :: "string \<Rightarrow> name_arg \<Rightarrow> bool" where
  "name_eq h (Hostname s) = (h = s)"
| "name_eq h (MachineObj m) = False"

text \<open>
  The messages of the tool, each with the values its f-string interpolates. The
  attributes that the messages read are defined by the client library on every
  machine, so building a message does not raise. The five lines that \<open>connect_maas\<close>
  prints before it exits are one message here, and so are the lines of the machine
  details.
\<close>

datatype msg =
    Attempt_failed int exn
  | Retrying_in_2_seconds
  | Unable_to_connect
  | Details_header
  | Machine_details machine
  | Machine_not_found string
  | Releasing string
  | Reached_status string string
  | Timeout_waiting string string
  | Deploy_not_found name_arg
  | Already_deployed name_arg machine
  | Non_deployable name_arg string
  | Deploying name_arg pyval string
  | Deployment_triggered name_arg pyval
  | Deploy_failed name_arg exn
  | Redeployed string pyval

text \<open>
  What the run does to the outside, in order: remote calls, sleeps, console output
  (\<open>print\<close>) and output that also goes to the log file (\<open>log\<close>). \<open>Release\<close> and
  \<open>Deploy\<close> are the two requests that change a machine on the service.
\<close>

datatype event =
    Connect
  | Machines_list
  | Machines_get string
  | Release string
  | Deploy string pyval
  | Sleep nat
  | Print msg
  | Log msg

text \<open>
  The state of a run: the reading of \<open>time.time()\<close> in whole seconds, the number of
  remote calls made so far, and the events so far, oldest first. The clock moves
  only while the program sleeps or waits for a remote call; it never runs backwards.
\<close>

record world =
  clock :: int
  calls :: nat
  trace :: "event list"

definition emit :: "event \<Rightarrow> world \<Rightarrow> world" where
  "emit e w = w\<lparr>trace := trace w @ [e]\<rparr>"

definition print :: "msg \<Rightarrow> world \<Rightarrow> world" where
  "print m w = emit (Print m) w"

definition log :: "msg \<Rightarrow> world \<Rightarrow> world" where
  "log m w = emit (Log m) w"

definition sleep :: "nat \<Rightarrow> world \<Rightarrow> world" where
  "sleep n w = (emit (Sleep n) w)\<lparr>clock := clock w + int n\<rparr>"

text \<open>
  A remote call: it is recorded, takes its time, and either raises or returns what
  the service answers at that moment.
\<close>

definition reply :: "client \<Rightarrow> (nat \<Rightarrow> exn + 'a) \<Rightarrow> nat \<Rightarrow> exn + 'a" where
  "reply c answer n = (case fault c n of Some x \<Rightarrow> Inl x | None \<Rightarrow> answer n)"

definition remote :: "client \<Rightarrow> event \<Rightarrow> (nat \<Rightarrow> exn + 'a) \<Rightarrow> world \<Rightarrow> (exn + 'a) \<times> world" where
  "remote c e answer w =
     (reply c answer (calls w),
      (emit e w)\<lparr>clock := clock w + int (delay c (calls w)), calls := Suc (calls w)\<rparr>)"

definition machines_list :: "client \<Rightarrow> world \<Rightarrow> (exn + machine list) \<times> world" where
  "machines_list c = remote c Machines_list (\<lambda>n. Inr (listing c n))"

text \<open>
  \<open>client.machines.get(system_id=...)\<close>: the machine with that identifier in the
  service's current list; the library raises when there is none.
\<close>

definition lookup :: "client \<Rightarrow> string \<Rightarrow> nat \<Rightarrow> exn + machine" where
  "lookup c sid n =
     (case find (\<lambda>m. system_id m = sid) (listing c n) of
        None \<Rightarrow> Inl Exception
      | Some m \<Rightarrow> Inr m)"

definition machines_get :: "client \<Rightarrow> string \<Rightarrow> world \<Rightarrow> (exn + machine) \<times> world" where
  "machines_get c sid = remote c (Machines_get sid) (lookup c sid)"

definition machine_release :: "client \<Rightarrow> machine \<Rightarrow> world \<Rightarrow> (exn + unit) \<times> world" where
  "machine_release c m = remote c (Release (system_id m)) (\<lambda>n. Inr ())"

text \<open>
  \<open>machine.deploy(osystem=os_distro)\<close>, with the keyword as the source writes it.
  The \<open>deploy\<close> of the client library takes the OS as \<open>distro_series\<close> (the keyword
  of the commented-out older \<open>deploy_machine\<close>) and has no parameter \<open>osystem\<close>:
  Python refuses the call with \<open>TypeError\<close> while it binds the arguments, before a
  request is sent. Nothing reaches the service, so no event is recorded and no
  remote call is counted.
\<close>

definition machine_deploy :: "client \<Rightarrow> machine \<Rightarrow> pyval \<Rightarrow> world \<Rightarrow> (exn + unit) \<times> world" where
  "machine_deploy c m os w = (Inl TypeError, w)"

text \<open>
  \<open>await f(...)\<close> followed by the rest of the function body: an exception raised
  by the awaited call leaves the function at once.
\<close>

fun await :: "(exn + 'a) \<times> world \<Rightarrow> ('a \<Rightarrow> world \<Rightarrow> (exn + 'b) \<times> world) \<Rightarrow> (exn + 'b) \<times> world" where
  "await (Inl x, w) rest = (Inl x, w)"
| "await (Inr a, w) rest = rest a w"

section \<open>The status waiter\<close>

text \<open>
  \<^verbatim>\<open>
  start = time.time()
  while time.time() - start < timeout:
      m = await client.machines.get(system_id=system_id)
      if m.status_name.lower() == expected_status.lower():
          print(...); return True
      await asyncio.sleep(10)
  print(...); return False
  \<close>
  Every round takes at least the ten seconds of the sleep, so the loop ends.
\<close>

lemma clock_machines_get:
  "machines_get c sid w = (r, w1) \<Longrightarrow> clock w \<le> clock w1"
  by (auto simp: machines_get_def remote_def emit_def)

function wait_loop ::
  "client \<Rightarrow> int \<Rightarrow> string \<Rightarrow> string \<Rightarrow> int \<Rightarrow> world \<Rightarrow> (exn + bool) \<times> world" where
  "wait_loop c start sid expected timeout w =
     (if clock w - start < timeout then
        (case machines_get c sid w of
           (Inl x, w1) \<Rightarrow> (Inl x, w1)
         | (Inr m, w1) \<Rightarrow>
             if lower (status_name m) = lower expected
             then (Inr True, print (Reached_status (hostname m) expected) w1)
             else wait_loop c start sid expected timeout (sleep 10 w1))
      else (Inr False, print (Timeout_waiting sid expected) w))"
  by pat_completeness auto

termination
proof (relation "measure (\<lambda>(c, start, sid, expected, timeout, w). nat (timeout - (clock w - start)))")
  show "wf (measure (\<lambda>(c, start, sid, expected, timeout, w). nat (timeout - (clock w - start))))"
    by simp
next
  fix c :: client and start :: int and sid expected :: string and timeout :: int
    and w w1 :: world and r :: "exn + machine" and m :: machine
  assume run: "clock w - start < timeout" and get: "(r, w1) = machines_get c sid w"
  from get have "clock w \<le> clock w1"
    by (metis clock_machines_get)
  with run show "((c, start, sid, expected, timeout, sleep 10 w1),
      (c, start, sid, expected, timeout, w))
      \<in> measure (\<lambda>(c, start, sid, expected, timeout, w). nat (timeout - (clock w - start)))"
    by (simp add: sleep_def emit_def)
qed

definition wait_for_status ::
  "client \<Rightarrow> string \<Rightarrow> string \<Rightarrow> int \<Rightarrow> world \<Rightarrow> (exn + bool) \<times> world" where
  "wait_for_status c sid expected timeout w = wait_loop c (clock w) sid expected timeout w"

declare wait_loop.simps [simp del]

text \<open>
  What the \<open>n\<close>-th remote call of the run observes when it is a poll of machine
  \<open>sid\<close>, and whether that observation has the expected status: both sides
  lower-cased, then compared for equality as strings.
\<close>

definition observed :: "client \<Rightarrow> string \<Rightarrow> nat \<Rightarrow> exn + machine" where
  "observed c sid n = reply c (lookup c sid) n"

definition matched :: "client \<Rightarrow> string \<Rightarrow> string \<Rightarrow> nat \<Rightarrow> bool" where
  "matched c sid expected n =
     (case observed c sid n of
        Inr m \<Rightarrow> lower (status_name m) = lower expected
      | Inl x \<Rightarrow> False)"

definition unmatched :: "client \<Rightarrow> string \<Rightarrow> string \<Rightarrow> nat \<Rightarrow> bool" where
  "unmatched c sid expected n =
     (case observed c sid n of
        Inr m \<Rightarrow> lower (status_name m) \<noteq> lower expected
      | Inl x \<Rightarrow> False)"

section \<open>The connector\<close>

text \<open>
  \<^verbatim>\<open>
  for attempt in range(1, retries + 1):
      try:
          client = await connect(maas_url, apikey=api_key)
          return client
      except (ClientConnectorError, ClientOSError) as e: print(...)
      except ClientResponseError as e: print(...)
      except asyncio.TimeoutError: print(...)
      except ServerDisconnectedError: print(...)
      if attempt < retries:
          print("Retrying in 2 seconds...")
          await asyncio.sleep(2)
  print(...)
  sys.exit(1)
  \<close>
  The library's \<open>connect\<close> is a parameter: \<open>connect n\<close> is what the call returns
  or raises when it is the \<open>n\<close>-th remote call of the run. An exception outside the
  four \<open>except\<close> clauses is not caught and leaves the function.
\<close>

datatype connected = Session client | Uncaught exn | Exit int

fun transient :: "exn \<Rightarrow> bool" where
  "transient ClientConnectorError = True"
| "transient ClientOSError = True"
| "transient ClientResponseError = True"
| "transient TimeoutError = True"
| "transient ServerDisconnectedError = True"
| "transient TypeError = False"
| "transient Exception = False"

function connect_loop ::
  "(nat \<Rightarrow> exn + client) \<Rightarrow> int \<Rightarrow> int \<Rightarrow> world \<Rightarrow> connected \<times> world" where
  "connect_loop connect attempt retries w =
     (if attempt \<le> retries then
        (let w1 = (emit Connect w)\<lparr>calls := Suc (calls w)\<rparr> in
         case connect (calls w) of
           Inr client \<Rightarrow> (Session client, w1)
         | Inl e \<Rightarrow>
             if transient e then
               (let w2 = print (Attempt_failed attempt e) w1;
                    w3 = (if attempt < retries
                          then sleep 2 (print Retrying_in_2_seconds w2)
                          else w2)
                in connect_loop connect (attempt + 1) retries w3)
             else (Uncaught e, w1))
      else (Exit 1, print Unable_to_connect w))"
  by pat_completeness auto
termination
  by (relation "measure (\<lambda>(connect, attempt, retries, w). nat (retries + 1 - attempt))") auto

declare connect_loop.simps [simp del]

definition connect_maas :: "(nat \<Rightarrow> exn + client) \<Rightarrow> int \<Rightarrow> world \<Rightarrow> connected \<times> world" where
  "connect_maas connect retries w = connect_loop connect 1 retries w"

text \<open>
  The attempts and the sleeps among the events, and a \<open>connect\<close> that fails with
  an exception of the four \<open>except\<close> clauses on each of the next \<open>k\<close> remote calls.
\<close>

fun attempt_or_sleep :: "event \<Rightarrow> bool" where
  "attempt_or_sleep Connect = True"
| "attempt_or_sleep (Sleep n) = True"
| "attempt_or_sleep e = False"

definition always_fails :: "(nat \<Rightarrow> exn + client) \<Rightarrow> nat \<Rightarrow> nat \<Rightarrow> bool" where
  "always_fails connect n0 k = (\<forall>i<k. case connect (n0 + i) of Inl e \<Rightarrow> transient e | Inr s \<Rightarrow> False)"

section \<open>Query, release, deploy and redeploy\<close>

definition query_machine ::
  "client \<Rightarrow> string \<Rightarrow> bool \<Rightarrow> world \<Rightarrow> (exn + machine option) \<times> world" where
  "query_machine c name quiet w =
     await (machines_list c w) (\<lambda>machines w1.
       case find (\<lambda>m. hostname m = name) machines of
         None \<Rightarrow> (Inr None, log (Machine_not_found name) w1)
       | Some m \<Rightarrow>
           await (machines_get c (system_id m) w1) (\<lambda>machine w2.
             (Inr (Some machine),
              if quiet then w2 else log (Machine_details machine) (log Details_header w2))))"

definition is_deployed :: "machine \<Rightarrow> bool" where
  "is_deployed m = (lower (status_name m) = ''deployed'')"

definition release_machine :: "client \<Rightarrow> machine \<Rightarrow> world \<Rightarrow> (exn + unit) \<times> world" where
  "release_machine c machine w =
     (if is_deployed machine
      then machine_release c machine (print (Releasing (hostname machine)) w)
      else (Inr (), w))"

text \<open>
  \<open>deploy_machine\<close> wraps its whole body in \<open>try ... except Exception\<close>, logs the
  exception and returns: it never raises and returns nothing. The machine is looked
  up by comparing each \<open>m.hostname\<close> with the parameter \<open>machine_name\<close>.
\<close>

definition non_deployable :: "string list" where
  "non_deployable = [''failed'', ''broken'', ''error'', ''unknown'']"

definition deploy_machine :: "client \<Rightarrow> name_arg \<Rightarrow> pyval \<Rightarrow> world \<Rightarrow> world" where
  "deploy_machine c machine_name os_distro w =
     (case machines_list c w of
        (Inl e, w1) \<Rightarrow> log (Deploy_failed machine_name e) w1
      | (Inr machines, w1) \<Rightarrow>
          (case find (\<lambda>m. name_eq (hostname m) machine_name) machines of
             None \<Rightarrow> log (Deploy_not_found machine_name) w1
           | Some machine \<Rightarrow>
               if is_deployed machine
               then log (Already_deployed machine_name machine) w1
               else if lower (status_name machine) \<in> set non_deployable
               then log (Non_deployable machine_name (status_name machine)) w1
               else
                 (case machine_deploy c machine os_distro
                         (log (Deploying machine_name os_distro (system_id machine)) w1) of
                    (Inl e, w2) \<Rightarrow> log (Deploy_failed machine_name e) w2
                  | (Inr u, w2) \<Rightarrow> log (Deployment_triggered machine_name os_distro) w2)))"

text \<open>
  \<^verbatim>\<open>
  machine = await query_machine(client, hostname, log_file)
  if not machine: return
  current_os = getattr(machine, "distro_series", None) or "focal"
  os_to_use = os_release or current_os
  if machine.status_name.lower() == "deployed":
      await release_machine(client, machine)
      await wait_for_status(client, machine.system_id, "Ready")
  await deploy_machine(client, machine, os_to_use)
  await wait_for_status(client, machine.system_id, "Deployed")
  log(f"Machine {hostname} successfully redeployed with {os_to_use}", log_file)
  \<close>
  The second argument of \<open>deploy_machine\<close> is the machine object, and both waits use
  the default timeout of 900 seconds; their results are not looked at.
\<close>

definition os_to_use :: "pyval \<Rightarrow> machine \<Rightarrow> pyval" where
  "os_to_use os_release machine =
     py_or os_release (py_or (getattr machine ''distro_series'' PyNone) (PyStr ''focal''))"

definition release_and_wait :: "client \<Rightarrow> machine \<Rightarrow> world \<Rightarrow> (exn + unit) \<times> world" where
  "release_and_wait c machine w =
     (if is_deployed machine
      then await (release_machine c machine w) (\<lambda>u w1.
             await (wait_for_status c (system_id machine) ''Ready'' 900 w1) (\<lambda>ready w2.
               (Inr (), w2)))
      else (Inr (), w))"

definition deploy_and_wait ::
  "client \<Rightarrow> string \<Rightarrow> machine \<Rightarrow> pyval \<Rightarrow> world \<Rightarrow> (exn + unit) \<times> world" where
  "deploy_and_wait c name machine os w =
     await (wait_for_status c (system_id machine) ''Deployed'' 900
              (deploy_machine c (MachineObj machine) os w)) (\<lambda>deployed w1.
       (Inr (), log (Redeployed name os) w1))"

definition redeploy_machine ::
  "client \<Rightarrow> string \<Rightarrow> pyval \<Rightarrow> world \<Rightarrow> (exn + unit) \<times> world" where
  "redeploy_machine c name os_release w =
     await (query_machine c name False w) (\<lambda>found w1.
       case found of
         None \<Rightarrow> (Inr (), w1)
       | Some machine \<Rightarrow>
           await (release_and_wait c machine w1) (\<lambda>u w2.
             deploy_and_wait c name machine (os_to_use os_release machine) w2))"

text \<open>
  \<^verbatim>\<open>
  machines = await client.machines.list()
  for m in machines:
      os_to_use = os_release or getattr(m, "distro_series", "focal")
      await redeploy_machine(client, m.hostname, os_to_use, log_file)
  \<close>
\<close>

fun redeploy_each ::
  "client \<Rightarrow> pyval \<Rightarrow> machine list \<Rightarrow> world \<Rightarrow> (exn + unit) \<times> world" where
  "redeploy_each c os_release [] w = (Inr (), w)"
| "redeploy_each c os_release (m # ms) w =
     await (redeploy_machine c (hostname m)
              (py_or os_release (getattr m ''distro_series'' (PyStr ''focal''))) w)
       (\<lambda>u w1. redeploy_each c os_release ms w1)"

definition redeploy_all :: "client \<Rightarrow> pyval \<Rightarrow> world \<Rightarrow> (exn + unit) \<times> world" where
  "redeploy_all c os_release w =
     await (machines_list c w) (\<lambda>machines w1. redeploy_each c os_release machines w1)"

text \<open>The remote calls that change the state of the service.\<close>

fun mutation :: "event \<Rightarrow> bool" where
  "mutation (Release sid) = True"
| "mutation (Deploy sid os) = True"
| "mutation e = False"

text \<open>
  The rule for the OS label: the explicit label when there is a non-empty one, else the
  machine's own label when it has a non-empty one, else \<open>focal\<close>.
\<close>

definition resolved_label :: "pyval \<Rightarrow> machine \<Rightarrow> pyval" where
  "resolved_label os_release m =
     (if truthy os_release then os_release
      else case map_of (attrs m) ''distro_series'' of
             None \<Rightarrow> PyStr ''focal''
           | Some d \<Rightarrow> if truthy d then d else PyStr ''focal'')"

section \<open>The last-deployed selector\<close>

text \<open>
  The two constructors of \<open>datetime\<close> that the selector calls are parameters:
  \<open>fromisoformat dt s\<close> and \<open>fromtimestamp dt n\<close> are \<open>None\<close> where the library
  raises. A \<open>stamp\<close> is an offset-naive or an offset-aware point in time; Python
  orders two stamps of the same kind by that point and raises \<open>TypeError\<close> when asked
  to order one of each kind.
\<close>

record datetime =
  fromisoformat :: "string \<Rightarrow> stamp option"
  fromtimestamp :: "int \<Rightarrow> stamp option"

fun instant :: "stamp \<Rightarrow> int" where
  "instant (Naive t) = t"
| "instant (Aware t) = t"

fun aware :: "stamp \<Rightarrow> bool" where
  "aware (Naive t) = False"
| "aware (Aware t) = True"

definition timestamp_attrs :: "string list" where
  "timestamp_attrs =
     [''deployment_started_at'', ''deployed_at'', ''deployment_finished_at'',
      ''commissioning_finished_at'', ''last_updated'', ''updated_at'', ''created_at'',
      ''created'']"

text \<open>
  The body of the \<open>try\<close>: \<open>None\<close> when it raises, which the \<open>except\<close> swallows.
  \<open>float(val)\<close> raises for \<open>None\<close> and for an object that is no number.
\<close>

fun parse :: "datetime \<Rightarrow> pyval \<Rightarrow> stamp option" where
  "parse dt (PyStr s) = fromisoformat dt s"
| "parse dt (PyDatetime t) = Some t"
| "parse dt (PyNum n) = fromtimestamp dt n"
| "parse dt PyNone = None"
| "parse dt (PyOther b) = None"

text \<open>
  \<^verbatim>\<open>
  ts = None
  for attr in timestamp_attrs:
      val = getattr(m, attr, None)
      if not val: continue
      try:
          ...; break
      except Exception:
          ts = None
  \<close>
\<close>

fun first_timestamp :: "datetime \<Rightarrow> machine \<Rightarrow> string list \<Rightarrow> stamp option" where
  "first_timestamp dt m [] = None"
| "first_timestamp dt m (attr # rest) =
     (let v = getattr m attr PyNone in
      if \<not> truthy v then first_timestamp dt m rest
      else case parse dt v of
             Some ts \<Rightarrow> Some ts
           | None \<Rightarrow> first_timestamp dt m rest)"

text \<open>
  The candidates, in listing order: the deployed machines, each with its timestamp
  or \<open>None\<close>; then those whose timestamp is not \<open>None\<close>.
\<close>

definition candidates :: "datetime \<Rightarrow> machine list \<Rightarrow> (stamp option \<times> machine) list" where
  "candidates dt machines =
     map (\<lambda>m. (first_timestamp dt m timestamp_attrs, m)) (filter is_deployed machines)"

definition dated :: "(stamp option \<times> machine) list \<Rightarrow> (stamp \<times> machine) list" where
  "dated cs = List.map_filter (\<lambda>(t, m). map_option (\<lambda>ts. (ts, m)) t) cs"

text \<open>
  \<open>candidates.sort(key=lambda x: x[0], reverse=True)\<close>. The sort orders the keys
  only and is stable, also in reverse: newest first, candidates of equal time in
  their listing order. Sorting two or more elements compares every element with
  some other one, so a list that holds both kinds of stamp raises \<open>TypeError\<close>.
\<close>

definition comparable :: "stamp list \<Rightarrow> bool" where
  "comparable ts = (list_all aware ts \<or> list_all (\<lambda>t. \<not> aware t) ts)"

definition sort_newest_first :: "(stamp \<times> machine) list \<Rightarrow> exn + (stamp \<times> machine) list" where
  "sort_newest_first cs =
     (if 2 \<le> length cs \<and> \<not> comparable (map fst cs) then Inl TypeError
      else Inr (sort_key (\<lambda>c. - instant (fst c)) cs))"

definition select_last_deployed :: "datetime \<Rightarrow> machine list \<Rightarrow> exn + machine option" where
  "select_last_deployed dt machines =
     (case dated (candidates dt machines) of
        [] \<Rightarrow> Inr (find is_deployed machines)
      | c # cs \<Rightarrow>
          (case sort_newest_first (c # cs) of
             Inl x \<Rightarrow> Inl x
           | Inr [] \<Rightarrow> Inl Exception
           | Inr (newest # others) \<Rightarrow> Inr (Some (snd newest))))"

definition find_last_deployed_machine ::
  "datetime \<Rightarrow> client \<Rightarrow> world \<Rightarrow> (exn + machine option) \<times> world" where
  "find_last_deployed_machine dt c w =
     await (machines_list c w) (\<lambda>machines w1. (select_last_deployed dt machines, w1))"

text \<open>
  The extraction rule in words, for one attribute: nothing for an attribute that is
  absent, \<open>None\<close>, the empty string, the number 0 or another object (which is skipped
  when it is false and fails in \<open>float()\<close> when it is true); the ISO parse of a
  non-empty string; a \<open>datetime\<close> as it is; the epoch reading of a number other
  than 0.
\<close>

fun attribute_stamp :: "datetime \<Rightarrow> pyval option \<Rightarrow> stamp option" where
  "attribute_stamp dt None = None"
| "attribute_stamp dt (Some PyNone) = None"
| "attribute_stamp dt (Some (PyStr s)) = (if s = [] then None else fromisoformat dt s)"
| "attribute_stamp dt (Some (PyDatetime t)) = Some t"
| "attribute_stamp dt (Some (PyNum n)) = (if n = 0 then None else fromtimestamp dt n)"
| "attribute_stamp dt (Some (PyOther b)) = None"

section \<open>Example runs\<close>

text \<open>
  A run that starts with no remote call made; a machine \<open>node1\<close> in a given
  status, with the OS label \<open>jammy\<close>. Three services: on \<open>slow_deploy\<close> the
  machine is seen as \<open>Deploying\<close> by the first two remote calls and as
  \<open>DEPLOYED\<close> from then on, every call taking one second; on \<open>steady st\<close> it
  stays in status \<open>st\<close>; on \<open>released\<close> it is \<open>Deployed\<close> for the first four
  remote calls and \<open>Ready\<close> afterwards. On the last two every call takes 450
  seconds, so a wait of 900 seconds ends after two polls.
\<close>

definition fresh :: world where
  "fresh = \<lparr>clock = 1000, calls = 0, trace = []\<rparr>"

definition node :: "string \<Rightarrow> machine" where
  "node st = \<lparr>hostname = ''node1'', system_id = ''abc123'', status_name = st,
              attrs = [(''distro_series'', PyStr ''jammy'')]\<rparr>"

definition slow_deploy :: client where
  "slow_deploy =
     \<lparr>listing = (\<lambda>n. [node (if n < 2 then ''Deploying'' else ''DEPLOYED'')]),
      fault = (\<lambda>n. None), delay = (\<lambda>n. 1)\<rparr>"

definition steady :: "string \<Rightarrow> client" where
  "steady st = \<lparr>listing = (\<lambda>n. [node st]), fault = (\<lambda>n. None), delay = (\<lambda>n. 450)\<rparr>"

definition released :: client where
  "released =
     \<lparr>listing = (\<lambda>n. [node (if n < 4 then ''Deployed'' else ''Ready'')]),
      fault = (\<lambda>n. None), delay = (\<lambda>n. 450)\<rparr>"

text \<open>A network on which every connection attempt is refused or times out.\<close>

definition refused :: "nat \<Rightarrow> exn + client" where
  "refused n = Inl (if even n then ClientConnectorError else TimeoutError)"

text \<open>
  A \<open>datetime\<close> library that knows four ISO strings, three without and one with a
  UTC offset, and reads every number as an epoch. Machines for the selector: \<open>A\<close>,
  \<open>B\<close>, \<open>C\<close> are those of the specification's example; \<open>D\<close> has a timestamp that
  does not parse, \<open>E\<close> has none; \<open>F\<close> has an unparseable, an empty and a
  non-numeric attribute before a numeric one; \<open>G\<close> has an offset-aware timestamp;
  \<open>Z\<close> has the epoch 0 in \<open>created_at\<close> and an ISO string in \<open>created\<close>.
\<close>

definition calendar :: datetime where
  "calendar =
     \<lparr>fromisoformat =
        map_of [(''2023-01-01T00:00:00'', Naive 1672531200),
                (''2024-06-01T00:00:00'', Naive 1717200000),
                (''2025-01-01T00:00:00'', Naive 1735689600),
                (''2024-06-01T00:00:00+00:00'', Aware 1717200000)],
      fromtimestamp = (\<lambda>n. Some (Naive n))\<rparr>"

definition host :: "string \<Rightarrow> string \<Rightarrow> (string \<times> pyval) list \<Rightarrow> machine" where
  "host name st as = \<lparr>hostname = name, system_id = name, status_name = st, attrs = as\<rparr>"

definition fleet :: "machine list \<Rightarrow> client" where
  "fleet ms = \<lparr>listing = (\<lambda>n. ms), fault = (\<lambda>n. None), delay = (\<lambda>n. 1)\<rparr>"

definition machine_A :: machine where
  "machine_A = host ''A'' ''Deployed'' [(''created'', PyStr ''2023-01-01T00:00:00'')]"

definition machine_B :: machine where
  "machine_B = host ''B'' ''Deployed'' [(''created'', PyStr ''2024-06-01T00:00:00'')]"

definition machine_C :: machine where
  "machine_C = host ''C'' ''Ready'' [(''created'', PyStr ''2025-01-01T00:00:00'')]"

definition machine_D :: machine where
  "machine_D = host ''D'' ''DEPLOYED'' [(''created'', PyStr ''yesterday'')]"

definition machine_E :: machine where
  "machine_E = host ''E'' ''Deployed'' []"

definition machine_F :: machine where
  "machine_F =
     host ''F'' ''deployed''
       [(''deployed_at'', PyStr ''soon''), (''last_updated'', PyStr ''''),
        (''updated_at'', PyOther True), (''created_at'', PyNum 1700000000),
        (''created'', PyStr ''2023-01-01T00:00:00'')]"

definition machine_G :: machine where
  "machine_G = host ''G'' ''Deployed'' [(''created'', PyStr ''2024-06-01T00:00:00+00:00'')]"

definition machine_Z :: machine where
  "machine_Z =
     host ''Z'' ''Deployed''
       [(''created_at'', PyNum 0), (''created'', PyStr ''2023-01-01T00:00:00'')]"

section \<open>Properties of the status waiter\<close>

lemma machines_get_eq:
  "machines_get c sid w =
     (observed c sid (calls w),
      \<lparr>clock = clock w + int (delay c (calls w)), calls = Suc (calls w),
       trace = trace w @ [Machines_get sid]\<rparr>)"
  by (simp add: machines_get_def remote_def emit_def observed_def)

lemma wait_loop_result:
  "wait_loop c start sid expected timeout w = (r, w') \<Longrightarrow>
     calls w \<le> calls w'
     \<and> (calls w' = calls w \<longrightarrow> clock w' = clock w)
     \<and> (\<forall>n. calls w \<le> n \<and> Suc n < calls w' \<longrightarrow> unmatched c sid expected n)
     \<and> (r = Inr True \<longrightarrow> calls w < calls w' \<and> matched c sid expected (calls w' - 1))
     \<and> (r = Inr False \<longrightarrow> timeout \<le> clock w' - start
          \<and> (calls w < calls w' \<longrightarrow>
                clock w' - 10 - int (delay c (calls w' - 1)) - start < timeout)
          \<and> (\<forall>n. calls w \<le> n \<and> n < calls w' \<longrightarrow> unmatched c sid expected n))
     \<and> (\<forall>x. r = Inl x \<longrightarrow> calls w < calls w' \<and> observed c sid (calls w' - 1) = Inl x)"
proof (induction c start sid expected timeout w arbitrary: r w' rule: wait_loop.induct)
  case (1 c start sid expected timeout w)
  show ?case
  proof (cases "clock w - start < timeout")
    case False
    with "1.prems" show ?thesis
      by (auto simp: wait_loop.simps print_def emit_def)
  next
    case running: True
    define w1 where "w1 = \<lparr>clock = clock w + int (delay c (calls w)), calls = Suc (calls w),
       trace = trace w @ [Machines_get sid]\<rparr>"
    have get: "machines_get c sid w = (observed c sid (calls w), w1)"
      by (simp add: machines_get_eq w1_def)
    show ?thesis
    proof (cases "observed c sid (calls w)")
      case (Inl x)
      with "1.prems" running get show ?thesis
        by (auto simp: wait_loop.simps w1_def)
    next
      case (Inr m)
      show ?thesis
      proof (cases "lower (status_name m) = lower expected")
        case True
        with "1.prems" running get Inr show ?thesis
          by (auto simp: wait_loop.simps w1_def print_def emit_def matched_def)
      next
        case False
        with "1.prems" running get Inr
        have again: "wait_loop c start sid expected timeout (sleep 10 w1) = (r, w')"
          by (simp add: wait_loop.simps)
        have here: "unmatched c sid expected (calls w)"
          using Inr False by (simp add: unmatched_def)
        have c1: "calls (sleep 10 w1) = Suc (calls w)"
          by (simp add: sleep_def emit_def w1_def)
        have t1: "clock (sleep 10 w1) = clock w + int (delay c (calls w)) + 10"
          by (simp add: sleep_def emit_def w1_def)
        note ih = "1.IH"[OF running get[symmetric] Inr False again, unfolded c1 t1]
        have un: "\<And>n. calls w \<le> n \<Longrightarrow> Suc (calls w) \<le> n \<or> n = calls w"
          by arith
        have more: "calls w < calls w'" "calls w' \<noteq> calls w"
          using ih by auto
        have polls: "\<forall>n. calls w \<le> n \<and> Suc n < calls w' \<longrightarrow> unmatched c sid expected n"
          using ih here un by metis
        have timed: "r = Inr False \<longrightarrow> timeout \<le> clock w' - start
          \<and> clock w' - 10 - int (delay c (calls w' - 1)) - start < timeout
          \<and> (\<forall>n. calls w \<le> n \<and> n < calls w' \<longrightarrow> unmatched c sid expected n)"
        proof
          assume f: "r = Inr False"
          with ih have a: "timeout \<le> clock w' - start"
            and b: "Suc (calls w) < calls w' \<longrightarrow>
                clock w' - 10 - int (delay c (calls w' - 1)) - start < timeout"
            and d: "\<forall>n. Suc (calls w) \<le> n \<and> n < calls w' \<longrightarrow> unmatched c sid expected n"
            and e: "calls w' = Suc (calls w) \<longrightarrow> clock w' = clock w + int (delay c (calls w)) + 10"
            by auto
          have "clock w' - 10 - int (delay c (calls w' - 1)) - start < timeout"
          proof (cases "Suc (calls w) < calls w'")
            case True
            with b show ?thesis by simp
          next
            case False
            with more have "calls w' = Suc (calls w)"
              by arith
            with e running show ?thesis
              by simp
          qed
          moreover have "\<forall>n. calls w \<le> n \<and> n < calls w' \<longrightarrow> unmatched c sid expected n"
            using d here un by blast
          ultimately show "timeout \<le> clock w' - start
            \<and> clock w' - 10 - int (delay c (calls w' - 1)) - start < timeout
            \<and> (\<forall>n. calls w \<le> n \<and> n < calls w' \<longrightarrow> unmatched c sid expected n)"
            using a by simp
        qed
        from ih more polls timed show ?thesis
          by auto
      qed
    qed
  qed
qed

text \<open>
  Claim C3. \<open>wait_for_status\<close> always returns (the function is total), and whatever
  it returns, every poll before the last one made fetched a machine whose status did
  not match. If the result is \<open>True\<close>, the last poll matched: the function returned
  on the first poll whose lower-cased status equals the lower-cased expected status.
  If the result is \<open>False\<close>, no poll matched, the time elapsed since the start is
  at least the timeout, and the last poll, if there was one, was started before the
  timeout had elapsed. An exception leaves the function only when the last poll
  itself raised it; running out of time raises nothing. With no poll made, no time
  has passed.
\<close>

theorem wait_for_status_result:
  "wait_for_status c sid expected timeout w = (r, w') \<Longrightarrow>
     calls w \<le> calls w'
     \<and> (calls w' = calls w \<longrightarrow> clock w' = clock w)
     \<and> (\<forall>n. calls w \<le> n \<and> Suc n < calls w' \<longrightarrow> unmatched c sid expected n)
     \<and> (r = Inr True \<longrightarrow> calls w < calls w' \<and> matched c sid expected (calls w' - 1))
     \<and> (r = Inr False \<longrightarrow> timeout \<le> clock w' - clock w
          \<and> (calls w < calls w' \<longrightarrow>
                clock w' - 10 - int (delay c (calls w' - 1)) - clock w < timeout)
          \<and> (\<forall>n. calls w \<le> n \<and> n < calls w' \<longrightarrow> unmatched c sid expected n))
     \<and> (\<forall>x. r = Inl x \<longrightarrow> calls w < calls w' \<and> observed c sid (calls w' - 1) = Inl x)"
  unfolding wait_for_status_def by (rule wait_loop_result)

theorem wait_for_status_result_witness:
  "wait_for_status slow_deploy ''abc123'' ''Deployed'' 900 fresh
     = (Inr True,
        \<lparr>clock = 1023, calls = 3,
         trace = [Machines_get ''abc123'', Sleep 10, Machines_get ''abc123'', Sleep 10,
                  Machines_get ''abc123'', Print (Reached_status ''node1'' ''Deployed'')]\<rparr>)
   \<and> unmatched slow_deploy ''abc123'' ''Deployed'' 0
   \<and> unmatched slow_deploy ''abc123'' ''Deployed'' 1
   \<and> matched slow_deploy ''abc123'' ''Deployed'' 2
   \<and> wait_for_status slow_deploy ''abc123'' ''Ready'' 15 fresh
     = (Inr False,
        \<lparr>clock = 1022, calls = 2,
         trace = [Machines_get ''abc123'', Sleep 10, Machines_get ''abc123'', Sleep 10,
                  Print (Timeout_waiting ''abc123'' ''Ready'')]\<rparr>)
   \<and> (15::int) \<le> 1022 - clock fresh
   \<and> unmatched slow_deploy ''abc123'' ''Ready'' 0
   \<and> unmatched slow_deploy ''abc123'' ''Ready'' 1"
proof -
  let ?w3 = "\<lparr>clock = 1023, calls = 3,
         trace = [Machines_get ''abc123'', Sleep 10, Machines_get ''abc123'', Sleep 10,
                  Machines_get ''abc123'', Print (Reached_status ''node1'' ''Deployed'')]\<rparr>"
  let ?w2 = "\<lparr>clock = 1022, calls = 2,
         trace = [Machines_get ''abc123'', Sleep 10, Machines_get ''abc123'', Sleep 10,
                  Print (Timeout_waiting ''abc123'' ''Ready'')]\<rparr>"
  have reached: "wait_for_status slow_deploy ''abc123'' ''Deployed'' 900 fresh = (Inr True, ?w3)"
    by (simp add: wait_for_status_def wait_loop.simps machines_get_eq observed_def reply_def
        lookup_def slow_deploy_def node_def fresh_def sleep_def emit_def print_def lower_def
        lower_char_def)
  have timed_out: "wait_for_status slow_deploy ''abc123'' ''Ready'' 15 fresh = (Inr False, ?w2)"
    by (simp add: wait_for_status_def wait_loop.simps machines_get_eq observed_def reply_def
        lookup_def slow_deploy_def node_def fresh_def sleep_def emit_def print_def lower_def
        lower_char_def)
  have c0: "calls fresh = 0"
    by (simp add: fresh_def)
  from wait_for_status_result [OF reached] wait_for_status_result [OF timed_out]
  have "(\<forall>n. n < 2 \<longrightarrow> unmatched slow_deploy ''abc123'' ''Deployed'' n)
      \<and> matched slow_deploy ''abc123'' ''Deployed'' 2
      \<and> (15::int) \<le> 1022 - clock fresh
      \<and> (\<forall>n. n < 2 \<longrightarrow> unmatched slow_deploy ''abc123'' ''Ready'' n)"
    by (simp add: c0)
  with reached timed_out show ?thesis
    by simp
qed

text \<open>
  Claim C10. With a timeout of zero or less the loop condition fails at once:
  \<open>wait_for_status\<close> prints the timeout message and returns \<open>False\<close>; no remote
  call is made, so the machine is not fetched even once.
\<close>

theorem wait_for_status_nonpositive_timeout:
  "timeout \<le> 0 \<Longrightarrow>
     wait_for_status c sid expected timeout w
       = (Inr False, print (Timeout_waiting sid expected) w)
     \<and> calls (snd (wait_for_status c sid expected timeout w)) = calls w"
  by (simp add: wait_for_status_def wait_loop.simps print_def emit_def)

theorem wait_for_status_nonpositive_timeout_witness:
  "(-5::int) \<le> 0
   \<and> wait_for_status \<lparr>listing = (\<lambda>n. []), fault = (\<lambda>n. None), delay = (\<lambda>n. 0)\<rparr>
         ''abc123'' ''Ready'' (-5) \<lparr>clock = 1000, calls = 0, trace = []\<rparr>
       = (Inr False,
          \<lparr>clock = 1000, calls = 0, trace = [Print (Timeout_waiting ''abc123'' ''Ready'')]\<rparr>)"
  using wait_for_status_nonpositive_timeout
    [of "-5" "\<lparr>listing = (\<lambda>n. []), fault = (\<lambda>n. None), delay = (\<lambda>n. 0)\<rparr>"
        "''abc123''" "''Ready''" "\<lparr>clock = 1000, calls = 0, trace = []\<rparr>"]
  by (simp add: print_def emit_def)

section \<open>Properties of the connector\<close>

lemma connect_loop_all_fail:
  "always_fails connect (calls w) (nat (retries + 1 - attempt)) \<Longrightarrow>
     fst (connect_loop connect attempt retries w) = Exit 1
     \<and> calls (snd (connect_loop connect attempt retries w)) = calls w + nat (retries + 1 - attempt)
     \<and> filter attempt_or_sleep (trace (snd (connect_loop connect attempt retries w)))
         = filter attempt_or_sleep (trace w)
           @ concat (replicate (nat (retries - attempt)) [Connect, Sleep 2])
           @ (if attempt \<le> retries then [Connect] else [])"
proof (induction connect attempt retries w rule: connect_loop.induct)
  case (1 connect attempt retries w)
  show ?case
  proof (cases "attempt \<le> retries")
    case False
    then show ?thesis
      by (simp add: connect_loop.simps print_def emit_def)
  next
    case True
    define w1 where "w1 = (emit Connect w)\<lparr>calls := Suc (calls w)\<rparr>"
    define w2 where "w2 e = print (Attempt_failed attempt e) w1" for e
    define w3 where "w3 e = (if attempt < retries
                          then sleep 2 (print Retrying_in_2_seconds (w2 e))
                          else w2 e)" for e
    from True have pos: "0 < nat (retries + 1 - attempt)"
      by simp
    from "1.prems" [unfolded always_fails_def, rule_format, OF pos]
    obtain e where e: "connect (calls w) = Inl e" "transient e"
      by (auto split: sum.splits)
    have unfold: "connect_loop connect attempt retries w
        = connect_loop connect (attempt + 1) retries (w3 e)"
      using True e by (subst connect_loop.simps) (simp add: w1_def w2_def w3_def)
    have calls3: "calls (w3 e) = Suc (calls w)"
      by (simp add: w3_def w2_def w1_def sleep_def print_def emit_def)
    have trace3: "filter attempt_or_sleep (trace (w3 e))
        = filter attempt_or_sleep (trace w) @ [Connect] @ (if attempt < retries then [Sleep 2] else [])"
      by (simp add: w3_def w2_def w1_def sleep_def print_def emit_def)
    have rest: "always_fails connect (calls (w3 e)) (nat (retries + 1 - (attempt + 1)))"
      unfolding always_fails_def calls3
    proof (intro allI impI)
      fix i assume "i < nat (retries + 1 - (attempt + 1))"
      then have "Suc i < nat (retries + 1 - attempt)"
        by arith
      from "1.prems" [unfolded always_fails_def, rule_format, OF this]
      show "case connect (Suc (calls w) + i) of Inl e \<Rightarrow> transient e | Inr s \<Rightarrow> False"
        by simp
    qed
    note ih = "1.IH" [OF True w1_def e(1) e(2) w2_def w3_def rest, folded unfold, unfolded calls3 trace3]
    have count: "Suc (calls w) + nat (retries + 1 - (attempt + 1)) = calls w + nat (retries + 1 - attempt)"
      using True by arith
    show ?thesis
    proof (cases "attempt < retries")
      case more: True
      then have "nat (retries - attempt) = Suc (nat (retries - (attempt + 1)))"
        by arith
      with ih more count show ?thesis
        by simp
    next
      case last: False
      with True have "attempt = retries"
        by simp
      with ih count show ?thesis
        by simp
    qed
  qed
qed

text \<open>
  Claim C2. With \<open>N \<ge> 1\<close> attempts allowed and every attempt failing with one of
  the caught exceptions, \<open>connect_maas\<close> makes exactly \<open>N\<close> remote calls, all of
  them connection attempts: \<open>N - 1\<close> times an attempt followed by a sleep of two
  seconds, then a last attempt with no sleep after it. It then ends the process with
  exit status 1.
\<close>

theorem connect_maas_all_fail:
  "1 \<le> N \<Longrightarrow> always_fails connect (calls w) (nat N) \<Longrightarrow>
     fst (connect_maas connect N w) = Exit 1
     \<and> calls (snd (connect_maas connect N w)) = calls w + nat N
     \<and> filter attempt_or_sleep (trace (snd (connect_maas connect N w)))
         = filter attempt_or_sleep (trace w)
           @ concat (replicate (nat N - 1) [Connect, Sleep 2]) @ [Connect]"
  using connect_loop_all_fail [of connect w N 1]
  by (simp add: connect_maas_def nat_diff_distrib)

theorem connect_maas_all_fail_witness:
  "(1::int) \<le> 3 \<and> always_fails refused (calls fresh) (nat 3)
   \<and> connect_maas refused 3 fresh
      = (Exit 1,
         \<lparr>clock = 1004, calls = 3,
          trace = [Connect, Print (Attempt_failed 1 ClientConnectorError),
                   Print Retrying_in_2_seconds, Sleep 2,
                   Connect, Print (Attempt_failed 2 TimeoutError),
                   Print Retrying_in_2_seconds, Sleep 2,
                   Connect, Print (Attempt_failed 3 ClientConnectorError),
                   Print Unable_to_connect]\<rparr>)
   \<and> filter attempt_or_sleep (trace (snd (connect_maas refused 3 fresh)))
      = [Connect, Sleep 2, Connect, Sleep 2, Connect]"
proof -
  have fails: "always_fails refused (calls fresh) (nat 3)"
    by (simp add: always_fails_def refused_def)
  have run: "connect_maas refused 3 fresh
      = (Exit 1,
         \<lparr>clock = 1004, calls = 3,
          trace = [Connect, Print (Attempt_failed 1 ClientConnectorError),
                   Print Retrying_in_2_seconds, Sleep 2,
                   Connect, Print (Attempt_failed 2 TimeoutError),
                   Print Retrying_in_2_seconds, Sleep 2,
                   Connect, Print (Attempt_failed 3 ClientConnectorError),
                   Print Unable_to_connect]\<rparr>)"
    by (simp add: connect_maas_def connect_loop.simps refused_def fresh_def sleep_def
        print_def emit_def)
  have "nat 3 - 1 = Suc (Suc 0)"
    by simp
  with connect_maas_all_fail [of 3 refused fresh, OF _ fails] fails run
  show ?thesis
    by (simp add: fresh_def)
qed

section \<open>Properties of deploy and redeploy\<close>

lemma wait_loop_mutation:
  "filter mutation (trace (snd (wait_loop c start sid expected timeout w)))
     = filter mutation (trace w)"
proof (induction c start sid expected timeout w rule: wait_loop.induct)
  case (1 c start sid expected timeout w)
  show ?case
  proof (cases "clock w - start < timeout")
    case False
    then show ?thesis
      by (simp add: wait_loop.simps print_def emit_def)
  next
    case running: True
    obtain r w1 where get: "machines_get c sid w = (r, w1)"
      by (cases "machines_get c sid w")
    then have tr1: "filter mutation (trace w1) = filter mutation (trace w)"
      by (auto simp: machines_get_eq)
    show ?thesis
    proof (cases r)
      case (Inl x)
      with running get tr1 show ?thesis
        by (simp add: wait_loop.simps)
    next
      case (Inr m)
      show ?thesis
      proof (cases "lower (status_name m) = lower expected")
        case True
        with running get Inr tr1 show ?thesis
          by (simp add: wait_loop.simps print_def emit_def)
      next
        case False
        have "filter mutation (trace (sleep 10 w1)) = filter mutation (trace w)"
          using tr1 by (simp add: sleep_def emit_def)
        with "1.IH" [OF running get [symmetric] Inr False] running get Inr False
        show ?thesis
          by (simp add: wait_loop.simps)
      qed
    qed
  qed
qed

lemma wait_for_status_mutation:
  "filter mutation (trace (snd (wait_for_status c sid expected timeout w)))
     = filter mutation (trace w)"
  by (simp add: wait_for_status_def wait_loop_mutation)

lemma machines_list_eq:
  "machines_list c w =
     (reply c (\<lambda>n. Inr (listing c n)) (calls w),
      \<lparr>clock = clock w + int (delay c (calls w)), calls = Suc (calls w),
       trace = trace w @ [Machines_list]\<rparr>)"
  by (simp add: machines_list_def remote_def emit_def)

lemma await_case:
  "await (r, w) rest = (case r of Inl x \<Rightarrow> (Inl x, w) | Inr a \<Rightarrow> rest a w)"
  by (cases r) simp_all

lemma query_machine_mutation:
  "filter mutation (trace (snd (query_machine c name quiet w))) = filter mutation (trace w)"
  by (simp add: query_machine_def machines_list_eq machines_get_eq await_case log_def emit_def
           split: option.splits sum.splits)

lemma find_machine_object:
  "find (\<lambda>m. False) machines = None"
  by (simp add: find_None_iff)

lemma deploy_machine_object:
  "deploy_machine c (MachineObj m) os w =
     log (case fault c (calls w) of
            Some x \<Rightarrow> Deploy_failed (MachineObj m) x
          | None \<Rightarrow> Deploy_not_found (MachineObj m))
       (snd (machines_list c w))"
  by (simp add: deploy_machine_def machines_list_eq reply_def find_machine_object
           split: option.splits)

lemma deploy_machine_object_mutation:
  "filter mutation (trace (deploy_machine c (MachineObj m) os w)) = filter mutation (trace w)"
  by (simp add: deploy_machine_object machines_list_eq log_def emit_def)

lemma await_snd_mutation:
  assumes "filter mutation (trace (snd p)) = es"
    and "\<And>a w. filter mutation (trace (snd (rest a w))) = filter mutation (trace w)"
  shows "filter mutation (trace (snd (await p rest))) = es"
  using assms by (cases p; cases "fst p") auto

lemma deploy_and_wait_mutation:
  "filter mutation (trace (snd (deploy_and_wait c name m os w))) = filter mutation (trace w)"
  unfolding deploy_and_wait_def
  by (rule await_snd_mutation)
     (simp_all add: wait_for_status_mutation deploy_machine_object_mutation log_def emit_def)

lemma release_and_wait_mutation:
  "filter mutation (trace (snd (release_and_wait c m w)))
     = filter mutation (trace w) @ (if is_deployed m then [Release (system_id m)] else [])"
proof (cases "is_deployed m")
  case False
  then show ?thesis
    by (simp add: release_and_wait_def)
next
  case True
  have rel: "filter mutation (trace (snd (release_machine c m w)))
      = filter mutation (trace w) @ [Release (system_id m)]"
    using True
    by (simp add: release_machine_def machine_release_def remote_def print_def emit_def)
  show ?thesis
    using True unfolding release_and_wait_def
    by (simp, intro await_snd_mutation rel) (simp_all add: wait_for_status_mutation)
qed

lemmas run_simps =
  redeploy_machine_def query_machine_def release_and_wait_def deploy_and_wait_def
  release_machine_def machine_release_def machine_deploy_def deploy_machine_def
  os_to_use_def py_or_def getattr_def is_deployed_def non_deployable_def
  wait_for_status_def wait_loop.simps machines_list_eq machines_get_eq remote_def
  observed_def reply_def lookup_def sleep_def emit_def print_def log_def
  lower_def lower_char_def fresh_def node_def

text \<open>
  Claim C1. The claim: on a machine that is \<open>Deployed\<close>, a redeploy request issues the
  release, waits for \<open>Ready\<close> and then issues the deploy call. The code issues the
  release and, whatever the wait returns, goes on to \<open>deploy_machine\<close>; but it hands
  it the machine object where the host name is expected, so the lookup there finds
  nothing and no deploy call is ever made. Of the calls that change the service, the
  request makes the release and nothing else.
\<close>

theorem redeploy_machine_deployed:
  "query_machine c name False w = (Inr (Some m), w1) \<Longrightarrow> is_deployed m \<Longrightarrow>
     filter mutation (trace (snd (redeploy_machine c name os w)))
       = filter mutation (trace w) @ [Release (system_id m)]"
proof -
  assume q: "query_machine c name False w = (Inr (Some m), w1)" and d: "is_deployed m"
  from query_machine_mutation [of c name False w] q
  have w1: "filter mutation (trace w1) = filter mutation (trace w)"
    by simp
  have "filter mutation (trace (snd (await (release_and_wait c m w1)
            (\<lambda>u w2. deploy_and_wait c name m (os_to_use os m) w2))))
      = filter mutation (trace w) @ [Release (system_id m)]"
    by (rule await_snd_mutation)
       (simp_all add: release_and_wait_mutation d w1 deploy_and_wait_mutation)
  with q show ?thesis
    by (simp add: redeploy_machine_def)
qed

theorem redeploy_machine_deployed_witness:
  "query_machine released ''node1'' False fresh
     = (Inr (Some (node ''Deployed'')),
        \<lparr>clock = 1900, calls = 2,
         trace = [Machines_list, Machines_get ''abc123'', Log Details_header,
                  Log (Machine_details (node ''Deployed''))]\<rparr>)
   \<and> is_deployed (node ''Deployed'')
   \<and> redeploy_machine released ''node1'' PyNone fresh
     = (Inr (),
        \<lparr>clock = 4630, calls = 8,
         trace = [Machines_list, Machines_get ''abc123'', Log Details_header,
                  Log (Machine_details (node ''Deployed'')),
                  Print (Releasing ''node1''), Release ''abc123'',
                  Machines_get ''abc123'', Sleep 10, Machines_get ''abc123'',
                  Print (Reached_status ''node1'' ''Ready''),
                  Machines_list, Log (Deploy_not_found (MachineObj (node ''Deployed''))),
                  Machines_get ''abc123'', Sleep 10, Machines_get ''abc123'', Sleep 10,
                  Print (Timeout_waiting ''abc123'' ''Deployed''),
                  Log (Redeployed ''node1'' (PyStr ''jammy''))]\<rparr>)
   \<and> filter mutation (trace (snd (redeploy_machine released ''node1'' PyNone fresh)))
     = [Release ''abc123'']"
proof -
  have q: "query_machine released ''node1'' False fresh
     = (Inr (Some (node ''Deployed'')),
        \<lparr>clock = 1900, calls = 2,
         trace = [Machines_list, Machines_get ''abc123'', Log Details_header,
                  Log (Machine_details (node ''Deployed''))]\<rparr>)"
    by (simp add: query_machine_def machines_list_eq machines_get_eq observed_def reply_def
        lookup_def log_def emit_def released_def fresh_def node_def)
  have d: "is_deployed (node ''Deployed'')"
    by (simp add: is_deployed_def node_def lower_def lower_char_def)
  have run: "redeploy_machine released ''node1'' PyNone fresh
     = (Inr (),
        \<lparr>clock = 4630, calls = 8,
         trace = [Machines_list, Machines_get ''abc123'', Log Details_header,
                  Log (Machine_details (node ''Deployed'')),
                  Print (Releasing ''node1''), Release ''abc123'',
                  Machines_get ''abc123'', Sleep 10, Machines_get ''abc123'',
                  Print (Reached_status ''node1'' ''Ready''),
                  Machines_list, Log (Deploy_not_found (MachineObj (node ''Deployed''))),
                  Machines_get ''abc123'', Sleep 10, Machines_get ''abc123'', Sleep 10,
                  Print (Timeout_waiting ''abc123'' ''Deployed''),
                  Log (Redeployed ''node1'' (PyStr ''jammy''))]\<rparr>)"
    by (simp add: run_simps released_def)
  from redeploy_machine_deployed [OF q d, of PyNone] q d run show ?thesis
    by (simp add: fresh_def node_def)
qed

text \<open>
  Claim C7. The claim: for a machine in a non-deployable status (\<open>Failed\<close>,
  \<open>Broken\<close>, \<open>Error\<close>, \<open>Unknown\<close>) a redeploy request reports an error and aborts,
  with neither a release nor a deploy call. The standalone \<open>deploy_machine\<close>, given
  the host name, does that: it reports the non-deployable state and returns. A
  redeploy request never reaches that check: it hands \<open>deploy_machine\<close> the machine
  object, as in claim C1, so the report is that the machine was not found; and the
  request does not abort: it waits for status \<open>Deployed\<close> until the timeout and
  then logs that the machine was redeployed. It makes neither a release nor a deploy
  call.
\<close>

theorem redeploy_machine_failed_goes_on:
  "deploy_machine (steady ''Failed'') (Hostname ''node1'') PyNone fresh
     = \<lparr>clock = 1450, calls = 1,
        trace = [Machines_list, Log (Non_deployable (Hostname ''node1'') ''Failed'')]\<rparr>
   \<and> redeploy_machine (steady ''Failed'') ''node1'' PyNone fresh
     = (Inr (),
        \<lparr>clock = 3270, calls = 5,
         trace = [Machines_list, Machines_get ''abc123'', Log Details_header,
                  Log (Machine_details (node ''Failed'')),
                  Machines_list, Log (Deploy_not_found (MachineObj (node ''Failed''))),
                  Machines_get ''abc123'', Sleep 10, Machines_get ''abc123'', Sleep 10,
                  Print (Timeout_waiting ''abc123'' ''Deployed''),
                  Log (Redeployed ''node1'' (PyStr ''jammy''))]\<rparr>)"
  by (simp add: run_simps steady_def)

lemma os_to_use_resolved: "os_to_use os m = resolved_label os m"
  by (simp add: os_to_use_def resolved_label_def py_or_def getattr_def split: option.splits)

text \<open>
  Claim C8, as amended. The OS label that a redeploy request hands to the deploy step
  (and puts in its final message) is the explicit label when that is given and not
  empty, otherwise the machine's \<open>distro_series\<close> when that is present and not
  empty, otherwise \<open>focal\<close>. \<open>redeploy_all\<close> arrives at the same label for a machine
  whose listed \<open>distro_series\<close> is the one the request then fetches.
\<close>

theorem redeploy_machine_os_label:
  "query_machine c name False w = (Inr (Some m), w1) \<Longrightarrow>
     redeploy_machine c name os w
       = await (release_and_wait c m w1) (\<lambda>u w2.
           await (wait_for_status c (system_id m) ''Deployed'' 900
                    (deploy_machine c (MachineObj m) (resolved_label os m) w2))
             (\<lambda>deployed w3. (Inr (), log (Redeployed name (resolved_label os m)) w3)))
     \<and> (map_of (attrs listed) ''distro_series'' = map_of (attrs m) ''distro_series'' \<longrightarrow>
          os_to_use (py_or os (getattr listed ''distro_series'' (PyStr ''focal''))) m
            = resolved_label os m)"
proof -
  assume q: "query_machine c name False w = (Inr (Some m), w1)"
  have tail: "(\<lambda>u w2. deploy_and_wait c name m (os_to_use os m) w2)
      = (\<lambda>u w2. await (wait_for_status c (system_id m) ''Deployed'' 900
                    (deploy_machine c (MachineObj m) (resolved_label os m) w2))
             (\<lambda>deployed w3. (Inr (), log (Redeployed name (resolved_label os m)) w3)))"
    by (simp add: deploy_and_wait_def os_to_use_resolved)
  have run: "redeploy_machine c name os w
      = await (release_and_wait c m w1) (\<lambda>u w2. deploy_and_wait c name m (os_to_use os m) w2)"
    using q by (simp add: redeploy_machine_def)
  have all: "map_of (attrs listed) ''distro_series'' = map_of (attrs m) ''distro_series'' \<longrightarrow>
          os_to_use (py_or os (getattr listed ''distro_series'' (PyStr ''focal''))) m
            = resolved_label os m"
    by (simp add: os_to_use_def resolved_label_def py_or_def getattr_def split: option.splits)
  show ?thesis
    unfolding run tail using all by (intro conjI refl)
qed

theorem redeploy_machine_os_label_witness:
  "query_machine (steady ''Ready'') ''node1'' False fresh
     = (Inr (Some (node ''Ready'')),
        \<lparr>clock = 1900, calls = 2,
         trace = [Machines_list, Machines_get ''abc123'', Log Details_header,
                  Log (Machine_details (node ''Ready''))]\<rparr>)
   \<and> resolved_label (PyStr ''noble'') (node ''Ready'') = PyStr ''noble''
   \<and> resolved_label PyNone (node ''Ready'') = PyStr ''jammy''
   \<and> resolved_label PyNone ((node ''Ready'')\<lparr>attrs := []\<rparr>) = PyStr ''focal''
   \<and> os_to_use (py_or PyNone (getattr (node ''New'') ''distro_series'' (PyStr ''focal'')))
        (node ''Ready'') = PyStr ''jammy''"
proof -
  have q: "query_machine (steady ''Ready'') ''node1'' False fresh
     = (Inr (Some (node ''Ready'')),
        \<lparr>clock = 1900, calls = 2,
         trace = [Machines_list, Machines_get ''abc123'', Log Details_header,
                  Log (Machine_details (node ''Ready''))]\<rparr>)"
    by (simp add: query_machine_def machines_list_eq machines_get_eq observed_def reply_def
        lookup_def log_def emit_def steady_def fresh_def node_def)
  have same: "map_of (attrs (node ''New'')) ''distro_series''
      = map_of (attrs (node ''Ready'')) ''distro_series''"
    by (simp add: node_def)
  from redeploy_machine_os_label [OF q, of PyNone "node ''New''"] same q show ?thesis
    by (simp add: resolved_label_def node_def)
qed

text \<open>
  Claim C8 as stated takes the explicit label whenever it is given. An explicit but
  empty label (\<open>--os ""\<close>) is not taken: the machine's own label is used.
\<close>

theorem redeploy_machine_empty_os:
  "os_to_use (PyStr '''') (node ''Ready'') = PyStr ''jammy''
   \<and> redeploy_machine (steady ''Ready'') ''node1'' (PyStr '''') fresh
     = (Inr (),
        \<lparr>clock = 3270, calls = 5,
         trace = [Machines_list, Machines_get ''abc123'', Log Details_header,
                  Log (Machine_details (node ''Ready'')),
                  Machines_list, Log (Deploy_not_found (MachineObj (node ''Ready''))),
                  Machines_get ''abc123'', Sleep 10, Machines_get ''abc123'', Sleep 10,
                  Print (Timeout_waiting ''abc123'' ''Deployed''),
                  Log (Redeployed ''node1'' (PyStr ''jammy''))]\<rparr>)"
  by (simp add: run_simps steady_def)

text \<open>
  Claim C9. When the first listed machine with the given host name is already deployed
  (its status lower-cased is \<open>deployed\<close>), the standalone \<open>deploy_machine\<close> lists the
  machines, logs the details of that machine and returns: it makes no deploy call and
  no other call that changes the service.
\<close>

theorem deploy_machine_already_deployed:
  "fault c (calls w) = None \<Longrightarrow>
   find (\<lambda>m. hostname m = name) (listing c (calls w)) = Some m \<Longrightarrow>
   is_deployed m \<Longrightarrow>
     deploy_machine c (Hostname name) os w
       = log (Already_deployed (Hostname name) m) (snd (machines_list c w))
     \<and> trace (deploy_machine c (Hostname name) os w)
       = trace w @ [Machines_list, Log (Already_deployed (Hostname name) m)]
     \<and> filter mutation (trace (deploy_machine c (Hostname name) os w))
       = filter mutation (trace w)"
  by (simp add: deploy_machine_def machines_list_eq reply_def log_def emit_def)

theorem deploy_machine_already_deployed_witness:
  "fault (steady ''Deployed'') (calls fresh) = None
   \<and> find (\<lambda>m. hostname m = ''node1'') (listing (steady ''Deployed'') (calls fresh))
       = Some (node ''Deployed'')
   \<and> is_deployed (node ''Deployed'')
   \<and> deploy_machine (steady ''Deployed'') (Hostname ''node1'') (PyStr ''focal'') fresh
       = \<lparr>clock = 1450, calls = 1,
          trace = [Machines_list,
                   Log (Already_deployed (Hostname ''node1'') (node ''Deployed''))]\<rparr>"
proof -
  have f: "fault (steady ''Deployed'') (calls fresh) = None"
    by (simp add: steady_def)
  have m: "find (\<lambda>m. hostname m = ''node1'') (listing (steady ''Deployed'') (calls fresh))
       = Some (node ''Deployed'')"
    by (simp add: steady_def node_def)
  have d: "is_deployed (node ''Deployed'')"
    by (simp add: is_deployed_def node_def lower_def lower_char_def)
  from deploy_machine_already_deployed [OF f m d, of "PyStr ''focal''"] f m d show ?thesis
    by (simp add: machines_list_eq log_def emit_def fresh_def steady_def)
qed

section \<open>Properties of the last-deployed selector\<close>

lemma dated_Nil_iff:
  "dated cs = [] \<longleftrightarrow> (\<forall>c\<in>set cs. fst c = None)"
  by (induction cs) (auto simp: dated_def split: option.splits)

lemma dated_candidates:
  "map snd (dated (candidates dt ms))
     = filter (\<lambda>m. is_deployed m \<and> first_timestamp dt m timestamp_attrs \<noteq> None) ms
   \<and> map (\<lambda>c. Some (fst c)) (dated (candidates dt ms))
     = map (\<lambda>c. first_timestamp dt (snd c) timestamp_attrs) (dated (candidates dt ms))"
  by (induction ms) (auto simp: dated_def candidates_def split: option.splits)

lemma hd_sort_key:
  "xs \<noteq> [] \<Longrightarrow>
     \<exists>i<length xs. \<exists>ys. sort_key f xs = (xs ! i) # ys
       \<and> (\<forall>j<length xs. f (xs ! i) \<le> f (xs ! j))
       \<and> (\<forall>j<i. f (xs ! i) < f (xs ! j))"
proof (induction xs)
  case Nil
  then show ?case by simp
next
  case (Cons x xs)
  show ?case
  proof (cases "xs = []")
    case True
    then show ?thesis by simp
  next
    case False
    from Cons.IH [OF False] obtain i ys where i: "i < length xs"
      and s: "sort_key f xs = (xs ! i) # ys"
      and least: "\<forall>j<length xs. f (xs ! i) \<le> f (xs ! j)"
      and first: "\<forall>j<i. f (xs ! i) < f (xs ! j)"
      by blast
    show ?thesis
    proof (cases "f x \<le> f (xs ! i)")
      case True
      have "sort_key f (x # xs) = ((x # xs) ! 0) # (xs ! i) # ys"
        using s True by simp
      moreover have "\<forall>j<length (x # xs). f ((x # xs) ! 0) \<le> f ((x # xs) ! j)"
      proof (intro allI impI)
        fix j assume "j < length (x # xs)"
        then show "f ((x # xs) ! 0) \<le> f ((x # xs) ! j)"
          using True least by (cases j) (auto intro: order_trans)
      qed
      ultimately show ?thesis
        by (intro exI [of _ 0]) auto
    next
      case False
      then have lt: "f (xs ! i) < f x"
        by simp
      have "sort_key f (x # xs) = ((x # xs) ! Suc i) # insort_key f x ys"
        using s False by simp
      moreover have "\<forall>j<length (x # xs). f ((x # xs) ! Suc i) \<le> f ((x # xs) ! j)"
      proof (intro allI impI)
        fix j assume "j < length (x # xs)"
        then show "f ((x # xs) ! Suc i) \<le> f ((x # xs) ! j)"
          using lt least by (cases j) auto
      qed
      moreover have "\<forall>j<Suc i. f ((x # xs) ! Suc i) < f ((x # xs) ! j)"
      proof (intro allI impI)
        fix j assume "j < Suc i"
        then show "f ((x # xs) ! Suc i) < f ((x # xs) ! j)"
          using lt first by (cases j) auto
      qed
      ultimately show ?thesis
        using i by (intro exI [of _ "Suc i"]) auto
    qed
  qed
qed

lemma find_last_deployed_machine_eq:
  "fault c (calls w) = None \<Longrightarrow>
     find_last_deployed_machine dt c w
       = (select_last_deployed dt (listing c (calls w)), snd (machines_list c w))"
  by (simp add: find_last_deployed_machine_def machines_list_eq reply_def)

lemma first_timestamp_attribute_stamp:
  "first_timestamp dt m names =
     (case List.map_filter (\<lambda>attr. attribute_stamp dt (map_of (attrs m) attr)) names of
        [] \<Rightarrow> None
      | ts # later \<Rightarrow> Some ts)"
proof (induction names)
  case Nil
  show ?case
    by simp
next
  case (Cons attr names)
  show ?case
  proof (cases "map_of (attrs m) attr")
    case None
    with Cons show ?thesis
      by (simp add: getattr_def)
  next
    case (Some v)
    with Cons show ?thesis
      by (cases v) (simp_all add: getattr_def split: option.splits)
  qed
qed

text \<open>
  Claim C6, as amended. The timestamp of a machine is the first success in the fixed
  order of the eight attribute names, where an attribute succeeds as follows: a
  non-empty string by its ISO parse, a \<open>datetime\<close> as it is, and a number other than
  0 by its reading as an epoch. An attribute that is absent, \<open>None\<close>, an empty
  string or the number 0 is skipped without a parse, and one whose parse fails is
  passed over; in both cases the extraction goes on with the next attribute of the
  same machine. Attributes after the first success are not looked at, and there is
  no timestamp exactly when no attribute succeeds.
\<close>

theorem first_timestamp_first_success:
  "first_timestamp dt m timestamp_attrs
     = (case List.map_filter (\<lambda>attr. attribute_stamp dt (map_of (attrs m) attr))
               timestamp_attrs of
          [] \<Rightarrow> None
        | ts # later \<Rightarrow> Some ts)
   \<and> timestamp_attrs
     = [''deployment_started_at'', ''deployed_at'', ''deployment_finished_at'',
        ''commissioning_finished_at'', ''last_updated'', ''updated_at'', ''created_at'',
        ''created'']"
  by (simp add: first_timestamp_attribute_stamp) (simp add: timestamp_attrs_def)

theorem first_timestamp_first_success_witness:
  "List.map_filter (\<lambda>attr. attribute_stamp calendar (map_of (attrs machine_F) attr))
       timestamp_attrs
     = [Naive 1700000000, Naive 1672531200]
   \<and> first_timestamp calendar machine_F timestamp_attrs = Some (Naive 1700000000)"
proof -
  have "List.map_filter (\<lambda>attr. attribute_stamp calendar (map_of (attrs machine_F) attr))
       timestamp_attrs
     = [Naive 1700000000, Naive 1672531200]"
    by (simp add: timestamp_attrs_def machine_F_def host_def calendar_def)
  with first_timestamp_first_success [of calendar machine_F, THEN conjunct1] show ?thesis
    by simp
qed

text \<open>
  Claim C6 as stated skips only absent or empty attributes. The attribute
  \<open>created_at\<close> of machine \<open>Z\<close> is present and holds the number 0, which reads as
  an epoch; it is skipped all the same, and the timestamp is that of the later
  attribute \<open>created\<close>.
\<close>

theorem first_timestamp_skips_epoch_zero:
  "getattr machine_Z ''created_at'' PyNone = PyNum 0
   \<and> parse calendar (PyNum 0) = Some (Naive 0)
   \<and> first_timestamp calendar machine_Z timestamp_attrs = Some (Naive 1672531200)"
  by (simp add: timestamp_attrs_def getattr_def machine_Z_def host_def calendar_def)

text \<open>
  The selection when the timestamps can be ordered. The candidates with a timestamp
  are exactly the listed machines whose lower-cased status is \<open>deployed\<close> and for
  which the extraction yields a timestamp, in listing order. When there is at least
  one and their timestamps are all offset-naive or all offset-aware,
  \<open>find_last_deployed_machine\<close> returns the candidate with the latest timestamp,
  and of several with that timestamp the first in listing order. On the
  specification's example (A and B deployed, B newer, C ready and newest) it
  returns B.
\<close>

theorem find_last_deployed_machine_newest:
  "fault c (calls w) = None \<Longrightarrow>
   P = dated (candidates dt (listing c (calls w))) \<Longrightarrow>
   P \<noteq> [] \<Longrightarrow> comparable (map fst P) \<Longrightarrow>
     map snd P
       = filter (\<lambda>m. is_deployed m \<and> first_timestamp dt m timestamp_attrs \<noteq> None)
           (listing c (calls w))
     \<and> map (\<lambda>p. Some (fst p)) P = map (\<lambda>p. first_timestamp dt (snd p) timestamp_attrs) P
     \<and> (\<exists>i<length P.
          fst (find_last_deployed_machine dt c w) = Inr (Some (snd (P ! i)))
          \<and> (\<forall>j<length P. instant (fst (P ! j)) \<le> instant (fst (P ! i)))
          \<and> (\<forall>j<i. instant (fst (P ! j)) < instant (fst (P ! i))))"
proof -
  assume ok: "fault c (calls w) = None"
    and P: "P = dated (candidates dt (listing c (calls w)))"
    and ne: "P \<noteq> []" and cmp: "comparable (map fst P)"
  from hd_sort_key [OF ne, of "\<lambda>p. - instant (fst p)"]
  obtain i ys where i: "i < length P"
    and sorted: "sort_key (\<lambda>p. - instant (fst p)) P = (P ! i) # ys"
    and newest: "\<forall>j<length P. instant (fst (P ! j)) \<le> instant (fst (P ! i))"
    and first: "\<forall>j<i. instant (fst (P ! j)) < instant (fst (P ! i))"
    by auto
  from ne P obtain p ps where split: "dated (candidates dt (listing c (calls w))) = p # ps"
    by (metis list.exhaust)
  have "sort_newest_first P = Inr ((P ! i) # ys)"
    using cmp sorted by (simp add: sort_newest_first_def)
  then have "sort_newest_first (p # ps) = Inr ((P ! i) # ys)"
    using P split by simp
  then have "select_last_deployed dt (listing c (calls w)) = Inr (Some (snd (P ! i)))"
    by (simp add: select_last_deployed_def split)
  then have "fst (find_last_deployed_machine dt c w) = Inr (Some (snd (P ! i)))"
    using ok by (simp add: find_last_deployed_machine_eq)
  with i newest first dated_candidates [of dt "listing c (calls w)"] P show ?thesis
    by blast
qed

theorem find_last_deployed_machine_newest_witness:
  "fault (fleet [machine_A, machine_B, machine_C]) (calls fresh) = None
   \<and> dated (candidates calendar (listing (fleet [machine_A, machine_B, machine_C]) (calls fresh)))
       = [(Naive 1672531200, machine_A), (Naive 1717200000, machine_B)]
   \<and> comparable [Naive 1672531200, Naive 1717200000]
   \<and> find_last_deployed_machine calendar (fleet [machine_A, machine_B, machine_C]) fresh
       = (Inr (Some machine_B), \<lparr>clock = 1001, calls = 1, trace = [Machines_list]\<rparr>)"
proof -
  let ?c = "fleet [machine_A, machine_B, machine_C]"
  let ?P = "[(Naive 1672531200, machine_A), (Naive 1717200000, machine_B)]"
  have ok: "fault ?c (calls fresh) = None"
    by (simp add: fleet_def)
  have P: "?P = dated (candidates calendar (listing ?c (calls fresh)))"
    by (simp add: dated_def candidates_def timestamp_attrs_def getattr_def is_deployed_def
        lower_def lower_char_def fleet_def host_def calendar_def machine_A_def machine_B_def
        machine_C_def)
  have ne: "?P \<noteq> []"
    by simp
  have cmp: "comparable (map fst ?P)"
    by (simp add: comparable_def)
  from find_last_deployed_machine_newest [OF ok P ne cmp]
  have "\<exists>i<length ?P.
      fst (find_last_deployed_machine calendar ?c fresh) = Inr (Some (snd (?P ! i)))
      \<and> (\<forall>j<length ?P. instant (fst (?P ! j)) \<le> instant (fst (?P ! i)))"
    by blast
  then obtain i where i: "i < length ?P"
    and sel: "fst (find_last_deployed_machine calendar ?c fresh) = Inr (Some (snd (?P ! i)))"
    and newest: "\<forall>j<length ?P. instant (fst (?P ! j)) \<le> instant (fst (?P ! i))"
    by blast
  from i have "i = 0 \<or> i = 1"
    by auto
  moreover from newest [rule_format, of 1]
  have "instant (fst (?P ! 1)) \<le> instant (fst (?P ! i))"
    by simp
  ultimately have "i = 1"
    by auto
  with sel have "fst (find_last_deployed_machine calendar ?c fresh) = Inr (Some machine_B)"
    by simp
  moreover have "snd (find_last_deployed_machine calendar ?c fresh)
      = \<lparr>clock = 1001, calls = 1, trace = [Machines_list]\<rparr>"
    by (simp add: find_last_deployed_machine_def machines_list_eq reply_def fleet_def fresh_def)
  ultimately have run: "find_last_deployed_machine calendar ?c fresh
      = (Inr (Some machine_B), \<lparr>clock = 1001, calls = 1, trace = [Machines_list]\<rparr>)"
    by (simp add: prod_eq_iff)
  note run
  moreover have "comparable [Naive 1672531200, Naive 1717200000]"
    by (simp add: comparable_def)
  ultimately show ?thesis
    using ok P [symmetric] by simp
qed

text \<open>Two candidates with the same latest timestamp: the first in listing order wins.\<close>

lemma select_last_deployed_tie:
  "select_last_deployed calendar [machine_A, machine_B, machine_B\<lparr>hostname := ''B2''\<rparr>]
     = Inr (Some machine_B)"
  by (simp add: select_last_deployed_def sort_newest_first_def comparable_def dated_def
      candidates_def timestamp_attrs_def getattr_def is_deployed_def lower_def lower_char_def
      host_def calendar_def machine_A_def machine_B_def)

text \<open>
  Claim C4. The claim: for every machine list, the deployed machine with the latest
  parsed timestamp is returned. The selection sorts the candidates by timestamp and
  takes care that every key is a timestamp (parse errors are swallowed, candidates
  without a timestamp are dropped), but not that the timestamps are of one kind. Of
  the deployed machines \<open>A\<close> and \<open>G\<close> each alone is selected; listed together, the
  sort compares an offset-naive with an offset-aware timestamp and raises
  \<open>TypeError\<close>, which nothing catches: no machine is returned, though \<open>G\<close> is the
  newer one.
\<close>

theorem find_last_deployed_machine_mixed:
  "find_last_deployed_machine calendar (fleet [machine_A]) fresh
     = (Inr (Some machine_A), \<lparr>clock = 1001, calls = 1, trace = [Machines_list]\<rparr>)
   \<and> find_last_deployed_machine calendar (fleet [machine_G]) fresh
     = (Inr (Some machine_G), \<lparr>clock = 1001, calls = 1, trace = [Machines_list]\<rparr>)
   \<and> find_last_deployed_machine calendar (fleet [machine_A, machine_G]) fresh
     = (Inl TypeError, \<lparr>clock = 1001, calls = 1, trace = [Machines_list]\<rparr>)"
  by (simp add: find_last_deployed_machine_def machines_list_eq reply_def fleet_def fresh_def
      select_last_deployed_def sort_newest_first_def comparable_def dated_def
      candidates_def timestamp_attrs_def getattr_def is_deployed_def lower_def lower_char_def
      host_def calendar_def machine_A_def machine_G_def)

text \<open>
  Claim C5. When the listing succeeds and no deployed machine yields a timestamp,
  \<open>find_last_deployed_machine\<close> returns the first machine of the listing whose
  lower-cased status is \<open>deployed\<close>, and \<open>None\<close> when the listing has no such machine.
\<close>

theorem find_last_deployed_machine_fallback:
  "fault c (calls w) = None \<Longrightarrow>
   \<forall>m\<in>set (listing c (calls w)).
      is_deployed m \<longrightarrow> first_timestamp dt m timestamp_attrs = None \<Longrightarrow>
     find_last_deployed_machine dt c w
       = (Inr (find is_deployed (listing c (calls w))), snd (machines_list c w))
     \<and> (case find is_deployed (listing c (calls w)) of
          None \<Rightarrow> \<forall>m\<in>set (listing c (calls w)). \<not> is_deployed m
        | Some m \<Rightarrow>
            \<exists>i<length (listing c (calls w)).
               m = listing c (calls w) ! i \<and> is_deployed m
               \<and> (\<forall>j<i. \<not> is_deployed (listing c (calls w) ! j)))"
proof -
  assume ok: "fault c (calls w) = None"
    and none: "\<forall>m\<in>set (listing c (calls w)).
      is_deployed m \<longrightarrow> first_timestamp dt m timestamp_attrs = None"
  from none have "dated (candidates dt (listing c (calls w))) = []"
    by (auto simp: dated_Nil_iff candidates_def)
  then have "select_last_deployed dt (listing c (calls w))
      = Inr (find is_deployed (listing c (calls w)))"
    by (simp add: select_last_deployed_def)
  with ok have "find_last_deployed_machine dt c w
       = (Inr (find is_deployed (listing c (calls w))), snd (machines_list c w))"
    by (simp add: find_last_deployed_machine_eq)
  moreover have "case find is_deployed (listing c (calls w)) of
          None \<Rightarrow> \<forall>m\<in>set (listing c (calls w)). \<not> is_deployed m
        | Some m \<Rightarrow>
            \<exists>i<length (listing c (calls w)).
               m = listing c (calls w) ! i \<and> is_deployed m
               \<and> (\<forall>j<i. \<not> is_deployed (listing c (calls w) ! j))"
    by (auto simp: find_None_iff find_Some_iff split: option.splits)
  ultimately show ?thesis
    by simp
qed

theorem find_last_deployed_machine_fallback_witness:
  "fault (fleet [machine_C, machine_D, machine_E]) (calls fresh) = None
   \<and> \<not> is_deployed machine_C
   \<and> first_timestamp calendar machine_D timestamp_attrs = None
   \<and> first_timestamp calendar machine_E timestamp_attrs = None
   \<and> find_last_deployed_machine calendar (fleet [machine_C, machine_D, machine_E]) fresh
       = (Inr (Some machine_D), \<lparr>clock = 1001, calls = 1, trace = [Machines_list]\<rparr>)
   \<and> find_last_deployed_machine calendar (fleet [machine_C]) fresh
       = (Inr None, \<lparr>clock = 1001, calls = 1, trace = [Machines_list]\<rparr>)"
proof -
  have c: "\<not> is_deployed machine_C"
    by (simp add: is_deployed_def machine_C_def host_def lower_def lower_char_def)
  have d: "is_deployed machine_D"
    by (simp add: is_deployed_def machine_D_def host_def lower_def lower_char_def)
  have td: "first_timestamp calendar machine_D timestamp_attrs = None"
    by (simp add: timestamp_attrs_def getattr_def machine_D_def host_def calendar_def)
  have te: "first_timestamp calendar machine_E timestamp_attrs = None"
    by (simp add: timestamp_attrs_def getattr_def machine_E_def host_def)
  have ok: "fault (fleet ms) (calls fresh) = None" for ms
    by (simp add: fleet_def)
  have l: "listing (fleet ms) (calls fresh) = ms" for ms
    by (simp add: fleet_def)
  have w: "snd (machines_list (fleet ms) fresh)
      = \<lparr>clock = 1001, calls = 1, trace = [Machines_list]\<rparr>" for ms
    by (simp add: machines_list_eq fleet_def fresh_def)
  have none3: "\<forall>m\<in>set (listing (fleet [machine_C, machine_D, machine_E]) (calls fresh)).
      is_deployed m \<longrightarrow> first_timestamp calendar m timestamp_attrs = None"
    using c td te by (simp add: l)
  have none1: "\<forall>m\<in>set (listing (fleet [machine_C]) (calls fresh)).
      is_deployed m \<longrightarrow> first_timestamp calendar m timestamp_attrs = None"
    using c by (simp add: l)
  from find_last_deployed_machine_fallback [OF ok none3, THEN conjunct1]
    find_last_deployed_machine_fallback [OF ok none1, THEN conjunct1]
  show ?thesis
    using c d td te by (simp add: ok l w)
qed

end
